theory Spec2Isabelle
  imports Complex_Main
begin

section \<open>The broker gateway of \<^verbatim>\<open>easytrader_service.py\<close>\<close>

text \<open>
  The service keeps one broker session in three module globals (\<^verbatim>\<open>trader\<close>,
  \<^verbatim>\<open>broker_type\<close>, \<^verbatim>\<open>trader_connected\<close>) and maps each REST route onto one call
  of the broker library. The embedding makes the effects explicit: every handler takes the
  globals and the world (the calls made to the library so far, and the log) and returns its
  response together with the new globals and the new world. The library is a parameter: an
  oracle that answers each call, given all calls made before it, with a result or with the
  message of the exception it raises.
\<close>

subsection \<open>Python values\<close>

text \<open>
  The payloads that travel through the gateway are typed \<^verbatim>\<open>Any\<close> in the source.
  A Python \<^verbatim>\<open>float\<close> is modelled as a real number (so NaN and the infinities are
  outside the model) and a Python \<^verbatim>\<open>str\<close> as the bytes of its UTF-8 encoding.
\<close>

datatype pyval =
    PNone
  | PBool bool
  | PInt int
  | PFloat real
  | PStr string
  | PList "pyval list"
  | PDict "(string \<times> pyval) list"

text \<open>\<^verbatim>\<open>len(v)\<close> raises TypeError on a value that has no length.\<close>

fun has_len :: "pyval \<Rightarrow> bool" where
  "has_len (PStr _) = True"
| "has_len (PList _) = True"
| "has_len (PDict _) = True"
| "has_len _ = False"

fun type_name :: "pyval \<Rightarrow> string" where
  "type_name PNone = ''NoneType''"
| "type_name (PBool _) = ''bool''"
| "type_name (PInt _) = ''int''"
| "type_name (PFloat _) = ''float''"
| "type_name (PStr _) = ''str''"
| "type_name (PList _) = ''list''"
| "type_name (PDict _) = ''dict''"

definition no_len_message :: "pyval \<Rightarrow> string" where
  "no_len_message v = ''object of type '' @ [CHR 0x27] @ type_name v @ [CHR 0x27] @ '' has no len()''"

text \<open>\<^verbatim>\<open>a or b\<close> on an optional string and a string: the first when it is truthy.\<close>

definition str_or :: "string option \<Rightarrow> string \<Rightarrow> string" where
  "str_or a b = (case a of None \<Rightarrow> b | Some s \<Rightarrow> if s \<noteq> [] then s else b)"

subsection \<open>The texts of the service\<close>

text \<open>
  The messages of the source are Chinese; each constant is the UTF-8 encoding of the
  source's literal, with its meaning and its place in the source.
\<close>

definition txt_service_ok :: string where
  \<comment> \<open>``service is healthy'': health_check, line 126\<close>
  "txt_service_ok = [CHR 0xE6, CHR 0x9C, CHR 0x8D, CHR 0xE5, CHR 0x8A, CHR 0xA1, CHR 0xE6,
     CHR 0xAD, CHR 0xA3, CHR 0xE5, CHR 0xB8, CHR 0xB8]"

definition txt_login_ok :: string where
  \<comment> \<open>``logged in to broker: '': login, lines 159 and 163; lifespan, line 94\<close>
  "txt_login_ok = [CHR 0xE6, CHR 0x88, CHR 0x90, CHR 0xE5, CHR 0x8A, CHR 0x9F, CHR 0xE7,
     CHR 0x99, CHR 0xBB, CHR 0xE5, CHR 0xBD, CHR 0x95, CHR 0xE5, CHR 0x88, CHR 0xB8,
     CHR 0xE5, CHR 0x95, CHR 0x86] @ '': ''"

definition txt_login_failed :: string where
  \<comment> \<open>``login failed: '': login, lines 168 and 171\<close>
  "txt_login_failed = [CHR 0xE7, CHR 0x99, CHR 0xBB, CHR 0xE5, CHR 0xBD, CHR 0x95,
     CHR 0xE5, CHR 0xA4, CHR 0xB1, CHR 0xE8, CHR 0xB4, CHR 0xA5] @ '': ''"

definition txt_not_logged_in :: string where
  \<comment> \<open>``not logged in'': logout, line 181\<close>
  "txt_not_logged_in = [CHR 0xE6, CHR 0x9C, CHR 0xAA, CHR 0xE7, CHR 0x99, CHR 0xBB,
     CHR 0xE5, CHR 0xBD, CHR 0x95]"

definition txt_logged_out :: string where
  \<comment> \<open>``logged out'': logout, line 187\<close>
  "txt_logged_out = [CHR 0xE5, CHR 0xB7, CHR 0xB2, CHR 0xE9, CHR 0x80, CHR 0x80, CHR 0xE5,
     CHR 0x87, CHR 0xBA, CHR 0xE7, CHR 0x99, CHR 0xBB, CHR 0xE5, CHR 0xBD, CHR 0x95]"

definition txt_logout_failed :: string where
  \<comment> \<open>``logout failed: '': logout, lines 189 and 192\<close>
  "txt_logout_failed = [CHR 0xE9, CHR 0x80, CHR 0x80, CHR 0xE5, CHR 0x87, CHR 0xBA,
     CHR 0xE7, CHR 0x99, CHR 0xBB, CHR 0xE5, CHR 0xBD, CHR 0x95, CHR 0xE5, CHR 0xA4,
     CHR 0xB1, CHR 0xE8, CHR 0xB4, CHR 0xA5] @ '': ''"

definition txt_no_broker_session :: string where
  \<comment> \<open>``not logged in to a broker'': the 503 detail of the trading and query handlers\<close>
  "txt_no_broker_session = [CHR 0xE6, CHR 0x9C, CHR 0xAA, CHR 0xE7, CHR 0x99, CHR 0xBB,
     CHR 0xE5, CHR 0xBD, CHR 0x95, CHR 0xE5, CHR 0x88, CHR 0xB8, CHR 0xE5, CHR 0x95,
     CHR 0x86]"

definition txt_buy_request :: string where
  \<comment> \<open>``buy request: '': buy, line 208\<close>
  "txt_buy_request = [CHR 0xE4, CHR 0xB9, CHR 0xB0, CHR 0xE5, CHR 0x85, CHR 0xA5,
     CHR 0xE8, CHR 0xAF, CHR 0xB7, CHR 0xE6, CHR 0xB1, CHR 0x82] @ '': ''"

definition txt_sell_request :: string where
  \<comment> \<open>``sell request: '': sell, line 239\<close>
  "txt_sell_request = [CHR 0xE5, CHR 0x8D, CHR 0x96, CHR 0xE5, CHR 0x87, CHR 0xBA,
     CHR 0xE8, CHR 0xAF, CHR 0xB7, CHR 0xE6, CHR 0xB1, CHR 0x82] @ '': ''"

definition txt_price :: string where
  \<comment> \<open>``, price: '': lines 208 and 239\<close>
  "txt_price = '', '' @ [CHR 0xE4, CHR 0xBB, CHR 0xB7, CHR 0xE6, CHR 0xA0, CHR 0xBC] @ '':
     ''"

definition txt_amount :: string where
  \<comment> \<open>``, amount: '': lines 208 and 239\<close>
  "txt_amount = '', '' @ [CHR 0xE6, CHR 0x95, CHR 0xB0, CHR 0xE9, CHR 0x87, CHR 0x8F] @
     '': ''"

definition txt_result :: string where
  \<comment> \<open>``, result: '': lines 208, 239 and 270\<close>
  "txt_result = '', '' @ [CHR 0xE7, CHR 0xBB, CHR 0x93, CHR 0xE6, CHR 0x9E, CHR 0x9C] @
     '': ''"

definition txt_buy_submitted :: string where
  \<comment> \<open>``buy request submitted'': buy, line 212\<close>
  "txt_buy_submitted = [CHR 0xE4, CHR 0xB9, CHR 0xB0, CHR 0xE5, CHR 0x85, CHR 0xA5,
     CHR 0xE8, CHR 0xAF, CHR 0xB7, CHR 0xE6, CHR 0xB1, CHR 0x82, CHR 0xE5, CHR 0xB7,
     CHR 0xB2, CHR 0xE6, CHR 0x8F, CHR 0x90, CHR 0xE4, CHR 0xBA, CHR 0xA4]"

definition txt_buy_failed :: string where
  \<comment> \<open>``buy failed: '': buy, lines 221 and 224\<close>
  "txt_buy_failed = [CHR 0xE4, CHR 0xB9, CHR 0xB0, CHR 0xE5, CHR 0x85, CHR 0xA5, CHR 0xE5,
     CHR 0xA4, CHR 0xB1, CHR 0xE8, CHR 0xB4, CHR 0xA5] @ '': ''"

definition txt_sell_submitted :: string where
  \<comment> \<open>``sell request submitted'': sell, line 243\<close>
  "txt_sell_submitted = [CHR 0xE5, CHR 0x8D, CHR 0x96, CHR 0xE5, CHR 0x87, CHR 0xBA,
     CHR 0xE8, CHR 0xAF, CHR 0xB7, CHR 0xE6, CHR 0xB1, CHR 0x82, CHR 0xE5, CHR 0xB7,
     CHR 0xB2, CHR 0xE6, CHR 0x8F, CHR 0x90, CHR 0xE4, CHR 0xBA, CHR 0xA4]"

definition txt_sell_failed :: string where
  \<comment> \<open>``sell failed: '': sell, lines 252 and 255\<close>
  "txt_sell_failed = [CHR 0xE5, CHR 0x8D, CHR 0x96, CHR 0xE5, CHR 0x87, CHR 0xBA,
     CHR 0xE5, CHR 0xA4, CHR 0xB1, CHR 0xE8, CHR 0xB4, CHR 0xA5] @ '': ''"

definition txt_cancel :: string where
  \<comment> \<open>``cancel order: '': cancel, line 270\<close>
  "txt_cancel = [CHR 0xE6, CHR 0x92, CHR 0xA4, CHR 0xE9, CHR 0x94, CHR 0x80, CHR 0xE5,
     CHR 0xA7, CHR 0x94, CHR 0xE6, CHR 0x89, CHR 0x98] @ '': ''"

definition txt_cancel_submitted :: string where
  \<comment> \<open>``cancel request submitted'': cancel, line 274\<close>
  "txt_cancel_submitted = [CHR 0xE6, CHR 0x92, CHR 0xA4, CHR 0xE9, CHR 0x94, CHR 0x80,
     CHR 0xE5, CHR 0xA7, CHR 0x94, CHR 0xE6, CHR 0x89, CHR 0x98, CHR 0xE8, CHR 0xAF,
     CHR 0xB7, CHR 0xE6, CHR 0xB1, CHR 0x82, CHR 0xE5, CHR 0xB7, CHR 0xB2, CHR 0xE6,
     CHR 0x8F, CHR 0x90, CHR 0xE4, CHR 0xBA, CHR 0xA4]"

definition txt_cancel_failed :: string where
  \<comment> \<open>``cancel failed: '': cancel, lines 278 and 281\<close>
  "txt_cancel_failed = [CHR 0xE6, CHR 0x92, CHR 0xA4, CHR 0xE9, CHR 0x94, CHR 0x80,
     CHR 0xE5, CHR 0xA7, CHR 0x94, CHR 0xE6, CHR 0x89, CHR 0x98, CHR 0xE5, CHR 0xA4,
     CHR 0xB1, CHR 0xE8, CHR 0xB4, CHR 0xA5] @ '': ''"

definition txt_portfolio :: string where
  \<comment> \<open>``positions: '': get_portfolio, line 296\<close>
  "txt_portfolio = [CHR 0xE8, CHR 0x8E, CHR 0xB7, CHR 0xE5, CHR 0x8F, CHR 0x96, CHR 0xE6,
     CHR 0x8C, CHR 0x81, CHR 0xE4, CHR 0xBB, CHR 0x93] @ '': ''"

definition txt_stocks :: string where
  \<comment> \<open>`` stocks'': get_portfolio, line 296\<close>
  "txt_stocks = '' '' @ [CHR 0xE5, CHR 0x8F, CHR 0xAA, CHR 0xE8, CHR 0x82, CHR 0xA1,
     CHR 0xE7, CHR 0xA5, CHR 0xA8]"

definition txt_portfolio_ok :: string where
  \<comment> \<open>``positions fetched'': get_portfolio, line 300\<close>
  "txt_portfolio_ok = [CHR 0xE8, CHR 0x8E, CHR 0xB7, CHR 0xE5, CHR 0x8F, CHR 0x96,
     CHR 0xE6, CHR 0x8C, CHR 0x81, CHR 0xE4, CHR 0xBB, CHR 0x93, CHR 0xE6, CHR 0x88,
     CHR 0x90, CHR 0xE5, CHR 0x8A, CHR 0x9F]"

definition txt_portfolio_failed :: string where
  \<comment> \<open>``fetching positions failed: '': get_portfolio, lines 304 and 307\<close>
  "txt_portfolio_failed = [CHR 0xE8, CHR 0x8E, CHR 0xB7, CHR 0xE5, CHR 0x8F, CHR 0x96,
     CHR 0xE6, CHR 0x8C, CHR 0x81, CHR 0xE4, CHR 0xBB, CHR 0x93, CHR 0xE5, CHR 0xA4,
     CHR 0xB1, CHR 0xE8, CHR 0xB4, CHR 0xA5] @ '': ''"

definition txt_balance :: string where
  \<comment> \<open>``balance: '': get_balance, line 322\<close>
  "txt_balance = [CHR 0xE8, CHR 0x8E, CHR 0xB7, CHR 0xE5, CHR 0x8F, CHR 0x96, CHR 0xE4,
     CHR 0xBD, CHR 0x99, CHR 0xE9, CHR 0xA2, CHR 0x9D] @ '': ''"

definition txt_balance_ok :: string where
  \<comment> \<open>``balance fetched'': get_balance, line 326\<close>
  "txt_balance_ok = [CHR 0xE8, CHR 0x8E, CHR 0xB7, CHR 0xE5, CHR 0x8F, CHR 0x96, CHR 0xE4,
     CHR 0xBD, CHR 0x99, CHR 0xE9, CHR 0xA2, CHR 0x9D, CHR 0xE6, CHR 0x88, CHR 0x90,
     CHR 0xE5, CHR 0x8A, CHR 0x9F]"

definition txt_balance_failed :: string where
  \<comment> \<open>``fetching balance failed: '': get_balance, lines 330 and 333\<close>
  "txt_balance_failed = [CHR 0xE8, CHR 0x8E, CHR 0xB7, CHR 0xE5, CHR 0x8F, CHR 0x96,
     CHR 0xE4, CHR 0xBD, CHR 0x99, CHR 0xE9, CHR 0xA2, CHR 0x9D, CHR 0xE5, CHR 0xA4,
     CHR 0xB1, CHR 0xE8, CHR 0xB4, CHR 0xA5] @ '': ''"

definition txt_orders :: string where
  \<comment> \<open>``orders of today: '': get_orders, line 348\<close>
  "txt_orders = [CHR 0xE8, CHR 0x8E, CHR 0xB7, CHR 0xE5, CHR 0x8F, CHR 0x96, CHR 0xE5,
     CHR 0xBD, CHR 0x93, CHR 0xE6, CHR 0x97, CHR 0xA5, CHR 0xE5, CHR 0xA7, CHR 0x94,
     CHR 0xE6, CHR 0x89, CHR 0x98] @ '': ''"

definition txt_items :: string where
  \<comment> \<open>`` items'': lines 348 and 374\<close>
  "txt_items = '' '' @ [CHR 0xE6, CHR 0x9D, CHR 0xA1]"

definition txt_orders_ok :: string where
  \<comment> \<open>``orders of today fetched'': get_orders, line 352\<close>
  "txt_orders_ok = [CHR 0xE8, CHR 0x8E, CHR 0xB7, CHR 0xE5, CHR 0x8F, CHR 0x96, CHR 0xE5,
     CHR 0xBD, CHR 0x93, CHR 0xE6, CHR 0x97, CHR 0xA5, CHR 0xE5, CHR 0xA7, CHR 0x94,
     CHR 0xE6, CHR 0x89, CHR 0x98, CHR 0xE6, CHR 0x88, CHR 0x90, CHR 0xE5, CHR 0x8A,
     CHR 0x9F]"

definition txt_orders_failed :: string where
  \<comment> \<open>``fetching orders of today failed: '': get_orders, lines 356 and 359\<close>
  "txt_orders_failed = [CHR 0xE8, CHR 0x8E, CHR 0xB7, CHR 0xE5, CHR 0x8F, CHR 0x96,
     CHR 0xE5, CHR 0xBD, CHR 0x93, CHR 0xE6, CHR 0x97, CHR 0xA5, CHR 0xE5, CHR 0xA7,
     CHR 0x94, CHR 0xE6, CHR 0x89, CHR 0x98, CHR 0xE5, CHR 0xA4, CHR 0xB1, CHR 0xE8,
     CHR 0xB4, CHR 0xA5] @ '': ''"

definition txt_trades :: string where
  \<comment> \<open>``trades of today: '': get_today_trades, line 374\<close>
  "txt_trades = [CHR 0xE8, CHR 0x8E, CHR 0xB7, CHR 0xE5, CHR 0x8F, CHR 0x96, CHR 0xE5,
     CHR 0xBD, CHR 0x93, CHR 0xE6, CHR 0x97, CHR 0xA5, CHR 0xE6, CHR 0x88, CHR 0x90,
     CHR 0xE4, CHR 0xBA, CHR 0xA4] @ '': ''"

definition txt_trades_ok :: string where
  \<comment> \<open>``trades of today fetched'': get_today_trades, line 378\<close>
  "txt_trades_ok = [CHR 0xE8, CHR 0x8E, CHR 0xB7, CHR 0xE5, CHR 0x8F, CHR 0x96, CHR 0xE5,
     CHR 0xBD, CHR 0x93, CHR 0xE6, CHR 0x97, CHR 0xA5, CHR 0xE6, CHR 0x88, CHR 0x90,
     CHR 0xE4, CHR 0xBA, CHR 0xA4, CHR 0xE6, CHR 0x88, CHR 0x90, CHR 0xE5, CHR 0x8A,
     CHR 0x9F]"

definition txt_trades_failed :: string where
  \<comment> \<open>``fetching trades of today failed: '': get_today_trades, lines 382 and 385\<close>
  "txt_trades_failed = [CHR 0xE8, CHR 0x8E, CHR 0xB7, CHR 0xE5, CHR 0x8F, CHR 0x96,
     CHR 0xE5, CHR 0xBD, CHR 0x93, CHR 0xE6, CHR 0x97, CHR 0xA5, CHR 0xE6, CHR 0x88,
     CHR 0x90, CHR 0xE4, CHR 0xBA, CHR 0xA4, CHR 0xE5, CHR 0xA4, CHR 0xB1, CHR 0xE8,
     CHR 0xB4, CHR 0xA5] @ '': ''"

definition txt_starting :: string where
  \<comment> \<open>``service starting...'': lifespan, line 79\<close>
  "txt_starting = ''EasyTrader'' @ [CHR 0xE6, CHR 0x9C, CHR 0x8D, CHR 0xE5, CHR 0x8A,
     CHR 0xA1, CHR 0xE5, CHR 0x90, CHR 0xAF, CHR 0xE5, CHR 0x8A, CHR 0xA8, CHR 0xE4,
     CHR 0xB8, CHR 0xAD] @ ''...''"

definition txt_autologin_failed :: string where
  \<comment> \<open>``automatic login failed: '': lifespan, line 96\<close>
  "txt_autologin_failed = [CHR 0xE8, CHR 0x87, CHR 0xAA, CHR 0xE5, CHR 0x8A, CHR 0xA8,
     CHR 0xE7, CHR 0x99, CHR 0xBB, CHR 0xE5, CHR 0xBD, CHR 0x95, CHR 0xE5, CHR 0xA4,
     CHR 0xB1, CHR 0xE8, CHR 0xB4, CHR 0xA5] @ '': ''"

definition txt_call_login :: string where
  \<comment> \<open>``, please call the login endpoint'': lifespan, line 96\<close>
  "txt_call_login = '', '' @ [CHR 0xE8, CHR 0xAF, CHR 0xB7, CHR 0xE6, CHR 0x89, CHR 0x8B,
     CHR 0xE5, CHR 0x8A, CHR 0xA8, CHR 0xE8, CHR 0xB0, CHR 0x83, CHR 0xE7, CHR 0x94,
     CHR 0xA8] @ ''login'' @ [CHR 0xE6, CHR 0x8E, CHR 0xA5, CHR 0xE5, CHR 0x8F, CHR 0xA3]"

definition txt_no_autologin :: string where
  \<comment> \<open>``automatic login not configured, please call the login endpoint'': lifespan, line 99\<close>
  "txt_no_autologin = [CHR 0xE6, CHR 0x9C, CHR 0xAA, CHR 0xE9, CHR 0x85, CHR 0x8D,
     CHR 0xE7, CHR 0xBD, CHR 0xAE, CHR 0xE8, CHR 0x87, CHR 0xAA, CHR 0xE5, CHR 0x8A,
     CHR 0xA8, CHR 0xE7, CHR 0x99, CHR 0xBB, CHR 0xE5, CHR 0xBD, CHR 0x95, CHR 0xEF,
     CHR 0xBC, CHR 0x8C, CHR 0xE8, CHR 0xAF, CHR 0xB7, CHR 0xE8, CHR 0xB0, CHR 0x83,
     CHR 0xE7, CHR 0x94, CHR 0xA8] @ ''login'' @ [CHR 0xE6, CHR 0x8E, CHR 0xA5, CHR 0xE5,
     CHR 0x8F, CHR 0xA3]"

definition txt_stopping :: string where
  \<comment> \<open>``service shutting down...'': lifespan, line 104\<close>
  "txt_stopping = ''EasyTrader'' @ [CHR 0xE6, CHR 0x9C, CHR 0x8D, CHR 0xE5, CHR 0x8A,
     CHR 0xA1, CHR 0xE5, CHR 0x85, CHR 0xB3, CHR 0xE9, CHR 0x97, CHR 0xAD, CHR 0xE4,
     CHR 0xB8, CHR 0xAD] @ ''...''"

definition txt_exit_failed :: string where
  \<comment> \<open>``closing the broker client failed: '': lifespan, line 109\<close>
  "txt_exit_failed = [CHR 0xE9, CHR 0x80, CHR 0x80, CHR 0xE5, CHR 0x87, CHR 0xBA,
     CHR 0xE5, CHR 0x88, CHR 0xB8, CHR 0xE5, CHR 0x95, CHR 0x86, CHR 0xE5, CHR 0xAE,
     CHR 0xA2, CHR 0xE6, CHR 0x88, CHR 0xB7, CHR 0xE7, CHR 0xAB, CHR 0xAF, CHR 0xE5,
     CHR 0xA4, CHR 0xB1, CHR 0xE8, CHR 0xB4, CHR 0xA5] @ '': ''"

subsection \<open>The broker library\<close>

text \<open>
  \<^verbatim>\<open>easytrader.use(kind)\<close> returns a trader object, here a numbered handle (an object
  is truthy), or raises. The members of a trader object that the service uses are listed
  with the positional arguments it passes.
\<close>

type_synonym handle = nat

datatype member =
    Prepare "string list"
  | Login "string option list"
  | Exit
  | Buy string real int
  | Sell string real int
  | Cancel_entrust string
  | Position
  | Balance
  | Today_entrusts
  | Today_trades

datatype call = Use string | Meth handle member

text \<open>
  The answer to a call is \<open>Inl\<close> the message \<^verbatim>\<open>str(e)\<close> of the exception raised, or
  \<open>Inr\<close> the value returned; it may depend on every call made before.
\<close>

record collab =
  use :: "call list \<Rightarrow> string \<Rightarrow> string + handle"
  meth :: "call list \<Rightarrow> handle \<Rightarrow> member \<Rightarrow> string + pyval"

subsection \<open>Environment, log and world\<close>

type_synonym env = "string \<Rightarrow> string option"

definition getenv :: "env \<Rightarrow> string \<Rightarrow> string \<Rightarrow> string" where
  "getenv e k d = (case e k of None \<Rightarrow> d | Some v \<Rightarrow> v)"

datatype level = INFO | WARNING | ERROR

text \<open>A log line is an f-string: its literal parts and the values formatted into it.\<close>

datatype frag =
    Lit string
  | Arg_str string
  | Arg_float real
  | Arg_int int
  | Arg_val pyval
  | Arg_len pyval

record world =
  history :: "call list"
  logged :: "(level \<times> frag list) list"

definition log :: "level \<Rightarrow> frag list \<Rightarrow> world \<Rightarrow> world" where
  "log l fs w = w\<lparr>logged := logged w @ [(l, fs)]\<rparr>"

definition use_broker :: "collab \<Rightarrow> world \<Rightarrow> string \<Rightarrow> (string + handle) \<times> world" where
  "use_broker c w k = (use c (history w) k, w\<lparr>history := history w @ [Use k]\<rparr>)"

definition invoke :: "collab \<Rightarrow> world \<Rightarrow> handle \<Rightarrow> member \<Rightarrow> (string + pyval) \<times> world" where
  "invoke c w h m = (meth c (history w) h m, w\<lparr>history := history w @ [Meth h m]\<rparr>)"

subsection \<open>Globals, requests and responses\<close>

record gstate =
  trader :: "handle option"
  broker_type :: string
  trader_connected :: bool

definition initial :: gstate where
  "initial = \<lparr>trader = None, broker_type = ''yh'', trader_connected = False\<rparr>"

text \<open>
  The request models. The fields of the three order-like models carry a prefix here, since
  \<^verbatim>\<open>BuyRequest\<close> and \<^verbatim>\<open>SellRequest\<close> name theirs alike, and those of
  \<^verbatim>\<open>LoginRequest\<close> since \<^verbatim>\<open>broker_type\<close> is a global too.
\<close>

record LoginRequest =
  req_broker_type :: string
  req_username :: "string option"
  req_password :: "string option"
  req_exe_path :: "string option"

record BuyRequest =
  buy_symbol :: string
  buy_price :: real
  buy_amount :: int

record SellRequest =
  sell_symbol :: string
  sell_price :: real
  sell_amount :: int

record CancelRequest =
  order_id :: string

record ResponseModel =
  success :: bool
  message :: string
  data :: pyval
  timestamp :: string

text \<open>
  A request ends in a \<^verbatim>\<open>ResponseModel\<close> (HTTP 200), in an \<^verbatim>\<open>HTTPException\<close> with its
  status code and detail, or, when the body does not validate against the request model, in
  the framework's validation error (HTTP 422), before the handler runs.
\<close>

datatype field_error = Missing string | Not_greater_than_0 string

datatype response =
    Ok ResponseModel
  | HTTPException nat string
  | RequestValidationError "field_error list"

fun status_code :: "response \<Rightarrow> nat" where
  "status_code (Ok _) = 200"
| "status_code (HTTPException n _) = n"
| "status_code (RequestValidationError _) = 422"

type_synonym outcome = "response \<times> gstate \<times> world"

text \<open>\<open>now\<close> is \<^verbatim>\<open>datetime.now().isoformat()\<close> at the time of the call.\<close>

definition create_response :: "string \<Rightarrow> bool \<Rightarrow> string \<Rightarrow> pyval \<Rightarrow> ResponseModel" where
  "create_response now s m d = \<lparr>success = s, message = m, data = d, timestamp = now\<rparr>"

subsection \<open>Start and stop of the process\<close>

text \<open>
  \<^verbatim>\<open>lifespan\<close> logs in at start when the environment gives a user name and a password,
  and closes the trader object at stop. It assigns \<^verbatim>\<open>trader\<close> and
  \<^verbatim>\<open>trader_connected\<close> only, never \<^verbatim>\<open>broker_type\<close>.
\<close>

definition autologin_failed :: "string \<Rightarrow> gstate \<Rightarrow> world \<Rightarrow> gstate \<times> world" where
  "autologin_failed e g w =
     (g\<lparr>trader_connected := False\<rparr>,
      log WARNING [Lit txt_autologin_failed, Arg_str e, Lit txt_call_login] w)"

definition startup :: "env \<Rightarrow> collab \<Rightarrow> gstate \<Rightarrow> world \<Rightarrow> gstate \<times> world" where
  "startup ev c g w =
     (let w0 = log INFO [Lit txt_starting] w;
          broker_type_env = getenv ev ''BROKER_TYPE'' ''yh'';
          username = getenv ev ''BROKER_USERNAME'' [];
          password = getenv ev ''BROKER_PASSWORD'' []
      in if username \<noteq> [] \<and> password \<noteq> [] then
           (case use_broker c w0 broker_type_env of
              (Inl e, w1) \<Rightarrow> autologin_failed e g w1
            | (Inr h, w1) \<Rightarrow>
                let g1 = g\<lparr>trader := Some h\<rparr>;
                    auth = (if broker_type_env = ''yh'' then Login []
                            else Login [Some username, Some password])
                in (case invoke c w1 h (Prepare [getenv ev ''BROKER_EXE_PATH'' []]) of
                      (Inl e, w2) \<Rightarrow> autologin_failed e g1 w2
                    | (Inr _, w2) \<Rightarrow>
                        (case invoke c w2 h auth of
                           (Inl e, w3) \<Rightarrow> autologin_failed e g1 w3
                         | (Inr _, w3) \<Rightarrow>
                             (g1\<lparr>trader_connected := True\<rparr>,
                              log INFO [Lit txt_login_ok, Arg_str broker_type_env] w3))))
         else (g, log INFO [Lit txt_no_autologin] w0))"

definition shutdown :: "collab \<Rightarrow> gstate \<Rightarrow> world \<Rightarrow> world" where
  "shutdown c g w =
     (let w0 = log INFO [Lit txt_stopping] w
      in case trader g of
           None \<Rightarrow> w0
         | Some h \<Rightarrow>
             (case invoke c w0 h Exit of
                (Inr _, w1) \<Rightarrow> w1
              | (Inl e, w1) \<Rightarrow> log WARNING [Lit txt_exit_failed, Arg_str e] w1))"

subsection \<open>Session handlers\<close>

definition health_check :: "string \<Rightarrow> gstate \<Rightarrow> world \<Rightarrow> outcome" where
  "health_check now g w =
     (Ok (create_response now True txt_service_ok
            (PDict [(''connected'', PBool (trader_connected g)),
                    (''broker_type'', PStr (broker_type g))])), g, w)"

text \<open>The \<^verbatim>\<open>except\<close> branch of \<^verbatim>\<open>login\<close>.\<close>

definition login_failed :: "string \<Rightarrow> gstate \<Rightarrow> world \<Rightarrow> outcome" where
  "login_failed e g w =
     (HTTPException 500 (txt_login_failed @ e),
      g\<lparr>trader_connected := False\<rparr>,
      log ERROR [Lit txt_login_failed, Arg_str e] w)"

definition login :: "env \<Rightarrow> collab \<Rightarrow> string \<Rightarrow> gstate \<Rightarrow> world \<Rightarrow> LoginRequest \<Rightarrow> outcome" where
  "login ev c now g w req =
     (case use_broker c w (req_broker_type req) of
        (Inl e, w1) \<Rightarrow> login_failed e g w1
      | (Inr h, w1) \<Rightarrow>
          let g1 = g\<lparr>trader := Some h, broker_type := req_broker_type req\<rparr>;
              exe_path = str_or (req_exe_path req) (getenv ev ''BROKER_EXE_PATH'' []);
              prep = (if exe_path \<noteq> [] then Prepare [exe_path] else Prepare []);
              auth = (if req_broker_type req = ''yh'' then Login []
                      else Login [req_username req, req_password req])
          in (case invoke c w1 h prep of
                (Inl e, w2) \<Rightarrow> login_failed e g1 w2
              | (Inr _, w2) \<Rightarrow>
                  (case invoke c w2 h auth of
                     (Inl e, w3) \<Rightarrow> login_failed e g1 w3
                   | (Inr _, w3) \<Rightarrow>
                       (Ok (create_response now True (txt_login_ok @ req_broker_type req)
                              (PDict [(''broker_type'', PStr (req_broker_type req))])),
                        g1\<lparr>trader_connected := True\<rparr>,
                        log INFO [Lit txt_login_ok, Arg_str (req_broker_type req)] w3))))"

definition logout :: "collab \<Rightarrow> string \<Rightarrow> gstate \<Rightarrow> world \<Rightarrow> outcome" where
  "logout c now g w =
     (case trader g of
        None \<Rightarrow> (Ok (create_response now False txt_not_logged_in PNone), g, w)
      | Some h \<Rightarrow>
          (case invoke c w h Exit of
             (Inr _, w1) \<Rightarrow>
               (Ok (create_response now True txt_logged_out PNone),
                g\<lparr>trader_connected := False, trader := None\<rparr>, w1)
           | (Inl e, w1) \<Rightarrow>
               (HTTPException 500 (txt_logout_failed @ e), g,
                log ERROR [Lit txt_logout_failed, Arg_str e] w1)))"

subsection \<open>Trading and query handlers\<close>

text \<open>
  Every handler of this section starts with the guard
  \<^verbatim>\<open>if not trader or not trader_connected\<close>, which raises the 503 exception.
\<close>

definition unavailable :: response where
  "unavailable = HTTPException 503 txt_no_broker_session"

definition guarded :: "gstate \<Rightarrow> world \<Rightarrow> (handle \<Rightarrow> outcome) \<Rightarrow> outcome" where
  "guarded g w body =
     (case trader g of
        None \<Rightarrow> (unavailable, g, w)
      | Some h \<Rightarrow> if \<not> trader_connected g then (unavailable, g, w) else body h)"

definition buy :: "collab \<Rightarrow> string \<Rightarrow> gstate \<Rightarrow> world \<Rightarrow> BuyRequest \<Rightarrow> outcome" where
  "buy c now g w req =
     (guarded g w (\<lambda>h.
        (case invoke c w h (Buy (buy_symbol req) (buy_price req) (buy_amount req)) of
           (Inr result, w1) \<Rightarrow>
             (Ok (create_response now True txt_buy_submitted
                    (PDict [(''symbol'', PStr (buy_symbol req)),
                            (''price'', PFloat (buy_price req)),
                            (''amount'', PInt (buy_amount req)),
                            (''order_id'', result)])), g,
              log INFO [Lit txt_buy_request, Arg_str (buy_symbol req),
                        Lit txt_price, Arg_float (buy_price req),
                        Lit txt_amount, Arg_int (buy_amount req),
                        Lit txt_result, Arg_val result] w1)
         | (Inl e, w1) \<Rightarrow>
             (HTTPException 500 (txt_buy_failed @ e), g,
              log ERROR [Lit txt_buy_failed, Arg_str e] w1))))"

definition sell :: "collab \<Rightarrow> string \<Rightarrow> gstate \<Rightarrow> world \<Rightarrow> SellRequest \<Rightarrow> outcome" where
  "sell c now g w req =
     (guarded g w (\<lambda>h.
        (case invoke c w h (Sell (sell_symbol req) (sell_price req) (sell_amount req)) of
           (Inr result, w1) \<Rightarrow>
             (Ok (create_response now True txt_sell_submitted
                    (PDict [(''symbol'', PStr (sell_symbol req)),
                            (''price'', PFloat (sell_price req)),
                            (''amount'', PInt (sell_amount req)),
                            (''order_id'', result)])), g,
              log INFO [Lit txt_sell_request, Arg_str (sell_symbol req),
                        Lit txt_price, Arg_float (sell_price req),
                        Lit txt_amount, Arg_int (sell_amount req),
                        Lit txt_result, Arg_val result] w1)
         | (Inl e, w1) \<Rightarrow>
             (HTTPException 500 (txt_sell_failed @ e), g,
              log ERROR [Lit txt_sell_failed, Arg_str e] w1))))"

definition cancel :: "collab \<Rightarrow> string \<Rightarrow> gstate \<Rightarrow> world \<Rightarrow> CancelRequest \<Rightarrow> outcome" where
  "cancel c now g w req =
     (guarded g w (\<lambda>h.
        (case invoke c w h (Cancel_entrust (order_id req)) of
           (Inr result, w1) \<Rightarrow>
             (Ok (create_response now True txt_cancel_submitted
                    (PDict [(''order_id'', PStr (order_id req)), (''result'', result)])), g,
              log INFO [Lit txt_cancel, Arg_str (order_id req), Lit txt_result, Arg_val result] w1)
         | (Inl e, w1) \<Rightarrow>
             (HTTPException 500 (txt_cancel_failed @ e), g,
              log ERROR [Lit txt_cancel_failed, Arg_str e] w1))))"

text \<open>
  The three list queries format \<^verbatim>\<open>len\<close> of the payload into their log line inside the
  \<^verbatim>\<open>try\<close>, so a payload without a length ends in the \<^verbatim>\<open>except\<close> branch too.
\<close>

definition get_portfolio :: "collab \<Rightarrow> string \<Rightarrow> gstate \<Rightarrow> world \<Rightarrow> outcome" where
  "get_portfolio c now g w =
     (guarded g w (\<lambda>h.
        (case invoke c w h Position of
           (Inr positions, w1) \<Rightarrow>
             if has_len positions then
               (Ok (create_response now True txt_portfolio_ok positions), g,
                log INFO [Lit txt_portfolio, Arg_len positions, Lit txt_stocks] w1)
             else
               (HTTPException 500 (txt_portfolio_failed @ no_len_message positions), g,
                log ERROR [Lit txt_portfolio_failed, Arg_str (no_len_message positions)] w1)
         | (Inl e, w1) \<Rightarrow>
             (HTTPException 500 (txt_portfolio_failed @ e), g,
              log ERROR [Lit txt_portfolio_failed, Arg_str e] w1))))"

definition get_balance :: "collab \<Rightarrow> string \<Rightarrow> gstate \<Rightarrow> world \<Rightarrow> outcome" where
  "get_balance c now g w =
     (guarded g w (\<lambda>h.
        (case invoke c w h Balance of
           (Inr balance, w1) \<Rightarrow>
             (Ok (create_response now True txt_balance_ok balance), g,
              log INFO [Lit txt_balance, Arg_val balance] w1)
         | (Inl e, w1) \<Rightarrow>
             (HTTPException 500 (txt_balance_failed @ e), g,
              log ERROR [Lit txt_balance_failed, Arg_str e] w1))))"

definition get_orders :: "collab \<Rightarrow> string \<Rightarrow> gstate \<Rightarrow> world \<Rightarrow> outcome" where
  "get_orders c now g w =
     (guarded g w (\<lambda>h.
        (case invoke c w h Today_entrusts of
           (Inr orders, w1) \<Rightarrow>
             if has_len orders then
               (Ok (create_response now True txt_orders_ok orders), g,
                log INFO [Lit txt_orders, Arg_len orders, Lit txt_items] w1)
             else
               (HTTPException 500 (txt_orders_failed @ no_len_message orders), g,
                log ERROR [Lit txt_orders_failed, Arg_str (no_len_message orders)] w1)
         | (Inl e, w1) \<Rightarrow>
             (HTTPException 500 (txt_orders_failed @ e), g,
              log ERROR [Lit txt_orders_failed, Arg_str e] w1))))"

definition get_today_trades :: "collab \<Rightarrow> string \<Rightarrow> gstate \<Rightarrow> world \<Rightarrow> outcome" where
  "get_today_trades c now g w =
     (guarded g w (\<lambda>h.
        (case invoke c w h Today_trades of
           (Inr trades, w1) \<Rightarrow>
             if has_len trades then
               (Ok (create_response now True txt_trades_ok trades), g,
                log INFO [Lit txt_trades, Arg_len trades, Lit txt_items] w1)
             else
               (HTTPException 500 (txt_trades_failed @ no_len_message trades), g,
                log ERROR [Lit txt_trades_failed, Arg_str (no_len_message trades)] w1)
         | (Inl e, w1) \<Rightarrow>
             (HTTPException 500 (txt_trades_failed @ e), g,
              log ERROR [Lit txt_trades_failed, Arg_str e] w1))))"

subsection \<open>Request validation\<close>

text \<open>
  The framework validates a JSON body against the request model before it calls the
  handler. A body is modelled with each declared field absent or of its declared type; the
  checks are those the \<^verbatim>\<open>Field\<close> declarations state: every field declared with
  \<^verbatim>\<open>...\<close> is required, and \<^verbatim>\<open>price\<close> and \<^verbatim>\<open>amount\<close> carry \<^verbatim>\<open>gt=0\<close>.
  No string field carries a length constraint.
\<close>

record login_body =
  body_broker_type :: "string option"
  body_username :: "string option"
  body_password :: "string option"
  body_exe_path :: "string option"

record order_body =
  body_symbol :: "string option"
  body_price :: "real option"
  body_amount :: "int option"

record cancel_body =
  body_order_id :: "string option"

definition required :: "string \<Rightarrow> 'a option \<Rightarrow> field_error list" where
  "required name v = (case v of None \<Rightarrow> [Missing name] | Some _ \<Rightarrow> [])"

definition gt0 :: "string \<Rightarrow> 'a::{zero,ord} option \<Rightarrow> field_error list" where
  "gt0 name v = (case v of None \<Rightarrow> [Missing name]
                 | Some x \<Rightarrow> if 0 < x then [] else [Not_greater_than_0 name])"

definition order_errors :: "order_body \<Rightarrow> field_error list" where
  "order_errors b =
     required ''symbol'' (body_symbol b) @ gt0 ''price'' (body_price b) @ gt0 ''amount'' (body_amount b)"

definition validate_LoginRequest :: "login_body \<Rightarrow> field_error list + LoginRequest" where
  "validate_LoginRequest b =
     (case body_broker_type b of
        None \<Rightarrow> Inl [Missing ''broker_type'']
      | Some k \<Rightarrow> Inr \<lparr>req_broker_type = k, req_username = body_username b,
                       req_password = body_password b, req_exe_path = body_exe_path b\<rparr>)"

definition validate_BuyRequest :: "order_body \<Rightarrow> field_error list + BuyRequest" where
  "validate_BuyRequest b =
     (case (body_symbol b, body_price b, body_amount b) of
        (Some s, Some p, Some a) \<Rightarrow>
          if 0 < p \<and> 0 < a then Inr \<lparr>buy_symbol = s, buy_price = p, buy_amount = a\<rparr>
          else Inl (order_errors b)
      | _ \<Rightarrow> Inl (order_errors b))"

definition validate_SellRequest :: "order_body \<Rightarrow> field_error list + SellRequest" where
  "validate_SellRequest b =
     (case (body_symbol b, body_price b, body_amount b) of
        (Some s, Some p, Some a) \<Rightarrow>
          if 0 < p \<and> 0 < a then Inr \<lparr>sell_symbol = s, sell_price = p, sell_amount = a\<rparr>
          else Inl (order_errors b)
      | _ \<Rightarrow> Inl (order_errors b))"

definition validate_CancelRequest :: "cancel_body \<Rightarrow> field_error list + CancelRequest" where
  "validate_CancelRequest b =
     (case body_order_id b of
        None \<Rightarrow> Inl [Missing ''order_id'']
      | Some i \<Rightarrow> Inr \<lparr>order_id = i\<rparr>)"

subsection \<open>The routes\<close>

datatype request =
    GET_health
  | POST_login login_body
  | GET_logout
  | POST_buy order_body
  | POST_sell order_body
  | POST_cancel cancel_body
  | GET_portfolio
  | GET_balance
  | GET_orders
  | GET_today_trades

fun serve :: "env \<Rightarrow> collab \<Rightarrow> string \<Rightarrow> gstate \<Rightarrow> world \<Rightarrow> request \<Rightarrow> outcome" where
  "serve ev c now g w GET_health = health_check now g w"
| "serve ev c now g w (POST_login b) =
     (case validate_LoginRequest b of
        Inl errs \<Rightarrow> (RequestValidationError errs, g, w)
      | Inr req \<Rightarrow> login ev c now g w req)"
| "serve ev c now g w GET_logout = logout c now g w"
| "serve ev c now g w (POST_buy b) =
     (case validate_BuyRequest b of
        Inl errs \<Rightarrow> (RequestValidationError errs, g, w)
      | Inr req \<Rightarrow> buy c now g w req)"
| "serve ev c now g w (POST_sell b) =
     (case validate_SellRequest b of
        Inl errs \<Rightarrow> (RequestValidationError errs, g, w)
      | Inr req \<Rightarrow> sell c now g w req)"
| "serve ev c now g w (POST_cancel b) =
     (case validate_CancelRequest b of
        Inl errs \<Rightarrow> (RequestValidationError errs, g, w)
      | Inr req \<Rightarrow> cancel c now g w req)"
| "serve ev c now g w GET_portfolio = get_portfolio c now g w"
| "serve ev c now g w GET_balance = get_balance c now g w"
| "serve ev c now g w GET_orders = get_orders c now g w"
| "serve ev c now g w GET_today_trades = get_today_trades c now g w"

subsection \<open>Sample brokers and states\<close>

text \<open>
  Two brokers for concrete runs. Both refuse the kind \<^verbatim>\<open>zz\<close> and hand out the number
  of calls made so far as the new handle; the first answers every call on a handle, the second
  raises on each of them.
\<close>

definition broker_good :: collab where
  "broker_good =
     \<lparr>use = (\<lambda>hist k. if k = ''zz'' then Inl ''unsupported broker'' else Inr (length hist)),
      meth = (\<lambda>hist h m. case m of
                Buy _ _ _ \<Rightarrow> Inr (PStr ''E1'')
              | Sell _ _ _ \<Rightarrow> Inr (PStr ''E2'')
              | Position \<Rightarrow> Inr (PList [])
              | Balance \<Rightarrow> Inr (PDict [])
              | Today_entrusts \<Rightarrow> Inr (PList [])
              | Today_trades \<Rightarrow> Inr (PList [])
              | _ \<Rightarrow> Inr PNone)\<rparr>"

definition broker_bad :: collab where
  "broker_bad =
     \<lparr>use = (\<lambda>hist k. if k = ''zz'' then Inl ''unsupported broker'' else Inr (length hist)),
      meth = (\<lambda>hist h m. Inl ''timeout'')\<rparr>"

definition no_env :: env where
  "no_env = (\<lambda>k. None)"

definition fresh :: world where
  "fresh = \<lparr>history = [], logged = []\<rparr>"

definition connected_state :: gstate where
  "connected_state = \<lparr>trader = Some 1, broker_type = ''yh'', trader_connected = True\<rparr>"

definition login_as :: "string \<Rightarrow> LoginRequest" where
  "login_as k = \<lparr>req_broker_type = k, req_username = Some ''u'', req_password = Some ''p'',
                 req_exe_path = None\<rparr>"


text \<open>Two logins in a row, and a login that fails, each from the state the process starts in.\<close>

definition once :: outcome where
  "once = login no_env broker_good ''2024-01-01T09:30:00'' initial fresh (login_as ''yh'')"

definition twice :: outcome where
  "twice = login no_env broker_good ''2024-01-01T09:31:00'' (fst (snd once)) (snd (snd once))
             (login_as ''ht'')"

definition failed_use :: outcome where
  "failed_use = login no_env broker_bad ''2024-01-01T09:30:00'' initial fresh (login_as ''zz'')"

definition failed_prepare :: outcome where
  "failed_prepare = login no_env broker_bad ''2024-01-01T09:30:00'' initial fresh (login_as ''ht'')"

text \<open>Request bodies: a negative price, an empty symbol, an empty order id.\<close>

definition negative_price :: order_body where
  "negative_price = \<lparr>body_symbol = Some ''sh600000'', body_price = Some (- 1), body_amount = Some 100\<rparr>"

definition empty_symbol :: order_body where
  "empty_symbol = \<lparr>body_symbol = Some [], body_price = Some 1, body_amount = Some 1\<rparr>"

definition empty_order_id :: cancel_body where
  "empty_order_id = \<lparr>body_order_id = Some []\<rparr>"

section \<open>Properties\<close>

subsection \<open>Auxiliary facts\<close>

lemma guarded_unavailable:
  "trader g = None \<or> \<not> trader_connected g \<Longrightarrow> guarded g w body = (unavailable, g, w)"
  by (auto simp: guarded_def split: option.splits)

lemma guarded_connected:
  "trader g = Some h \<Longrightarrow> trader_connected g \<Longrightarrow> guarded g w body = body h"
  by (simp add: guarded_def)

subsection \<open>No session, no trading\<close>

text \<open>
  C1. While the session is not connected (there is no trader object, or the connected flag
  is off), each of the seven trading and query handlers answers with the 503 exception and
  leaves the globals and the world as they were: no call reaches the broker library and
  nothing is logged.
\<close>

theorem not_connected_gives_503:
  assumes "trader g = None \<or> \<not> trader_connected g"
  shows "buy c now g w rb = (HTTPException 503 txt_no_broker_session, g, w)
       \<and> sell c now g w rs = (HTTPException 503 txt_no_broker_session, g, w)
       \<and> cancel c now g w rc = (HTTPException 503 txt_no_broker_session, g, w)
       \<and> get_portfolio c now g w = (HTTPException 503 txt_no_broker_session, g, w)
       \<and> get_balance c now g w = (HTTPException 503 txt_no_broker_session, g, w)
       \<and> get_orders c now g w = (HTTPException 503 txt_no_broker_session, g, w)
       \<and> get_today_trades c now g w = (HTTPException 503 txt_no_broker_session, g, w)"
  using guarded_unavailable [OF assms]
  by (simp add: buy_def sell_def cancel_def get_portfolio_def get_balance_def get_orders_def
      get_today_trades_def unavailable_def)

theorem not_connected_gives_503_witness:
  "get_balance broker_good ''2024-01-01T09:30:00'' initial fresh
     = (HTTPException 503 txt_no_broker_session, initial, fresh)
   \<and> status_code (fst (buy broker_good ''2024-01-01T09:30:00''
        (connected_state\<lparr>trader_connected := False\<rparr>) fresh
        \<lparr>buy_symbol = ''sh600000'', buy_price = 21 / 2, buy_amount = 100\<rparr>)) = 503"
proof -
  have a: "trader initial = None \<or> \<not> trader_connected initial"
    by (simp add: initial_def)
  have b: "trader (connected_state\<lparr>trader_connected := False\<rparr>) = None
         \<or> \<not> trader_connected (connected_state\<lparr>trader_connected := False\<rparr>)"
    by simp
  show ?thesis
    using not_connected_gives_503 [OF a] not_connected_gives_503 [OF b] by simp
qed

subsection \<open>Logout without a session\<close>

text \<open>
  C3. With no trader object stored, logout answers HTTP 200 with an envelope whose success
  flag is false and whose message says that nobody is logged in; the globals and the world
  are unchanged, so the broker library is not called.
\<close>

theorem logout_without_session:
  assumes "trader g = None"
  shows "logout c now g w =
           (Ok \<lparr>success = False, message = txt_not_logged_in, data = PNone, timestamp = now\<rparr>, g, w)
       \<and> status_code (fst (logout c now g w)) = 200"
  using assms by (simp add: logout_def create_response_def)

theorem logout_without_session_witness:
  "logout broker_bad ''2024-01-01T09:30:00'' initial fresh =
     (Ok \<lparr>success = False, message = txt_not_logged_in, data = PNone,
          timestamp = ''2024-01-01T09:30:00''\<rparr>, initial, fresh)"
proof -
  have "trader initial = None" by (simp add: initial_def)
  from logout_without_session [OF this] show ?thesis by simp
qed

subsection \<open>A failing broker call\<close>

text \<open>
  C6. In a connected session, when the broker library raises on the one call a trading or
  query handler makes, the handler answers HTTP 500 whose detail is the handler's fixed
  label followed by the library's message, character for character; the globals (handle,
  broker kind, connected flag) are exactly those before the call, the call is recorded
  once, and the failure is logged.
\<close>

theorem collaborator_failure_gives_500:
  assumes "trader g = Some h" and "trader_connected g"
  shows "(meth c (history w) h (Buy (buy_symbol rb) (buy_price rb) (buy_amount rb)) = Inl e \<longrightarrow>
          buy c now g w rb =
            (HTTPException 500 (txt_buy_failed @ e), g,
             log ERROR [Lit txt_buy_failed, Arg_str e]
               (w\<lparr>history := history w @ [Meth h (Buy (buy_symbol rb) (buy_price rb) (buy_amount rb))]\<rparr>)))
      \<and> (meth c (history w) h (Sell (sell_symbol rs) (sell_price rs) (sell_amount rs)) = Inl e \<longrightarrow>
          sell c now g w rs =
            (HTTPException 500 (txt_sell_failed @ e), g,
             log ERROR [Lit txt_sell_failed, Arg_str e]
               (w\<lparr>history := history w @ [Meth h (Sell (sell_symbol rs) (sell_price rs) (sell_amount rs))]\<rparr>)))
      \<and> (meth c (history w) h (Cancel_entrust (order_id rc)) = Inl e \<longrightarrow>
          cancel c now g w rc =
            (HTTPException 500 (txt_cancel_failed @ e), g,
             log ERROR [Lit txt_cancel_failed, Arg_str e]
               (w\<lparr>history := history w @ [Meth h (Cancel_entrust (order_id rc))]\<rparr>)))
      \<and> (meth c (history w) h Position = Inl e \<longrightarrow>
          get_portfolio c now g w =
            (HTTPException 500 (txt_portfolio_failed @ e), g,
             log ERROR [Lit txt_portfolio_failed, Arg_str e]
               (w\<lparr>history := history w @ [Meth h Position]\<rparr>)))
      \<and> (meth c (history w) h Balance = Inl e \<longrightarrow>
          get_balance c now g w =
            (HTTPException 500 (txt_balance_failed @ e), g,
             log ERROR [Lit txt_balance_failed, Arg_str e]
               (w\<lparr>history := history w @ [Meth h Balance]\<rparr>)))
      \<and> (meth c (history w) h Today_entrusts = Inl e \<longrightarrow>
          get_orders c now g w =
            (HTTPException 500 (txt_orders_failed @ e), g,
             log ERROR [Lit txt_orders_failed, Arg_str e]
               (w\<lparr>history := history w @ [Meth h Today_entrusts]\<rparr>)))
      \<and> (meth c (history w) h Today_trades = Inl e \<longrightarrow>
          get_today_trades c now g w =
            (HTTPException 500 (txt_trades_failed @ e), g,
             log ERROR [Lit txt_trades_failed, Arg_str e]
               (w\<lparr>history := history w @ [Meth h Today_trades]\<rparr>)))"
  using guarded_connected [OF assms]
  by (simp add: buy_def sell_def cancel_def get_portfolio_def get_balance_def get_orders_def
      get_today_trades_def invoke_def)

theorem collaborator_failure_gives_500_witness:
  "buy broker_bad ''2024-01-01T09:30:00'' connected_state fresh
       \<lparr>buy_symbol = ''sh600000'', buy_price = 21 / 2, buy_amount = 100\<rparr> =
     (HTTPException 500 (txt_buy_failed @ ''timeout''), connected_state,
      \<lparr>history = [Meth 1 (Buy ''sh600000'' (21 / 2) 100)],
       logged = [(ERROR, [Lit txt_buy_failed, Arg_str ''timeout''])]\<rparr>)
   \<and> get_orders broker_bad ''2024-01-01T09:30:00'' connected_state fresh =
     (HTTPException 500 (txt_orders_failed @ ''timeout''), connected_state,
      \<lparr>history = [Meth 1 Today_entrusts],
       logged = [(ERROR, [Lit txt_orders_failed, Arg_str ''timeout''])]\<rparr>)"
proof -
  have a: "trader connected_state = Some 1" and b: "trader_connected connected_state"
    by (simp_all add: connected_state_def)
  show ?thesis
    using collaborator_failure_gives_500 [OF a b, where c = broker_bad and w = fresh and e = "''timeout''"]
    by (simp add: broker_bad_def fresh_def log_def)
qed

subsection \<open>What a login leaves behind\<close>

lemma login_succeeds:
  assumes "login ev c now g w r = (Ok e, g', w')"
  shows "\<exists>h p a. use c (history w) (req_broker_type r) = Inr h
           \<and> g' = \<lparr>trader = Some h, broker_type = req_broker_type r, trader_connected = True\<rparr>
           \<and> history w' = history w @
                [Use (req_broker_type r), Meth h (Prepare p), Meth h (Login a)]"
  using assms
  by (auto simp: login_def use_broker_def invoke_def login_failed_def log_def Let_def
      split: sum.splits if_splits)

lemma login_fails:
  assumes "login ev c now g w r = (HTTPException n d, g', w')"
  shows "n = 500"
    and "use c (history w) (req_broker_type r) = Inr h \<Longrightarrow>
           g' = \<lparr>trader = Some h, broker_type = req_broker_type r, trader_connected = False\<rparr>
           \<and> history w' \<noteq> [] \<and> (\<exists>m. last (history w') = Meth h m)"
    and "use c (history w) (req_broker_type r) = Inl x \<Longrightarrow>
           g' = g\<lparr>trader_connected := False\<rparr> \<and> d = txt_login_failed @ x
           \<and> history w' = history w @ [Use (req_broker_type r)]"
  using assms
  by (auto simp: login_def use_broker_def invoke_def login_failed_def log_def Let_def
      split: sum.splits if_splits)

text \<open>
  C4. After two successful logins in a row, the one slot for the trader object holds the
  handle the library returned to the second login, with the second broker kind and the
  connected flag on. The calls made in between are the two login sequences (create,
  prepare, authenticate) and nothing else: the first handle is dropped without a call of
  its exit.
\<close>

theorem relogin_replaces_handle:
  assumes "login ev c now1 g w r1 = (Ok e1, g1, w1)"
      and "login ev c now2 g1 w1 r2 = (Ok e2, g2, w2)"
  shows "\<exists>h1 p1 a1 h2 p2 a2.
           trader g1 = Some h1
         \<and> use c (history w1) (req_broker_type r2) = Inr h2
         \<and> g2 = \<lparr>trader = Some h2, broker_type = req_broker_type r2, trader_connected = True\<rparr>
         \<and> history w2 = history w @
              [Use (req_broker_type r1), Meth h1 (Prepare p1), Meth h1 (Login a1),
               Use (req_broker_type r2), Meth h2 (Prepare p2), Meth h2 (Login a2)]"
proof -
  from login_succeeds [OF assms(1)] obtain h1 p1 a1 where
    one: "trader g1 = Some h1"
      "history w1 = history w @
         [Use (req_broker_type r1), Meth h1 (Prepare p1), Meth h1 (Login a1)]"
    by auto
  from login_succeeds [OF assms(2)] obtain h2 p2 a2 where
    two: "use c (history w1) (req_broker_type r2) = Inr h2"
      "g2 = \<lparr>trader = Some h2, broker_type = req_broker_type r2, trader_connected = True\<rparr>"
      "history w2 = history w1 @
         [Use (req_broker_type r2), Meth h2 (Prepare p2), Meth h2 (Login a2)]"
    by auto
  from one two show ?thesis by auto
qed

theorem relogin_replaces_handle_witness:
  "trader (fst (snd twice)) = Some 3
   \<and> fst (snd twice) = \<lparr>trader = Some 3, broker_type = ''ht'', trader_connected = True\<rparr>
   \<and> history (snd (snd twice)) =
       [Use ''yh'', Meth 0 (Prepare []), Meth 0 (Login []),
        Use ''ht'', Meth 3 (Prepare []), Meth 3 (Login [Some ''u'', Some ''p''])]"
proof -
  have a: "login no_env broker_good ''2024-01-01T09:30:00'' initial fresh (login_as ''yh'') =
             (Ok (create_response ''2024-01-01T09:30:00'' True (txt_login_ok @ ''yh'')
                    (PDict [(''broker_type'', PStr ''yh'')])),
              fst (snd once), snd (snd once))"
    by (simp add: once_def login_def use_broker_def invoke_def broker_good_def fresh_def
        login_as_def no_env_def getenv_def str_or_def log_def Let_def)
  have w1: "history (snd (snd once)) = [Use ''yh'', Meth 0 (Prepare []), Meth 0 (Login [])]"
    by (simp add: once_def login_def use_broker_def invoke_def broker_good_def fresh_def
        login_as_def no_env_def getenv_def str_or_def log_def Let_def)
  have b: "login no_env broker_good ''2024-01-01T09:31:00'' (fst (snd once)) (snd (snd once))
             (login_as ''ht'') =
             (Ok (create_response ''2024-01-01T09:31:00'' True (txt_login_ok @ ''ht'')
                    (PDict [(''broker_type'', PStr ''ht'')])),
              fst (snd twice), snd (snd twice))"
    by (simp add: twice_def login_def use_broker_def invoke_def broker_good_def w1
        login_as_def no_env_def getenv_def str_or_def log_def Let_def)
  have w2: "history (snd (snd twice)) =
       [Use ''yh'', Meth 0 (Prepare []), Meth 0 (Login []),
        Use ''ht'', Meth 3 (Prepare []), Meth 3 (Login [Some ''u'', Some ''p''])]"
    by (simp add: twice_def login_def use_broker_def invoke_def broker_good_def w1
        login_as_def no_env_def getenv_def str_or_def log_def Let_def)
  from relogin_replaces_handle [OF a b] w1 w2 show ?thesis
    by (auto simp: broker_good_def)
qed

subsection \<open>Logout with a session\<close>

text \<open>
  C2, as the claim states it, fails: when the library's exit raises, logout leaves through
  its \<^verbatim>\<open>except\<close> branch, which assigns no global. Here a connected session with
  handle 1 is still connected, with the same handle, after the failed logout.
\<close>

theorem logout_failure_counterexample:
  "logout broker_bad ''2024-01-01T09:30:00'' connected_state fresh =
     (HTTPException 500 (txt_logout_failed @ ''timeout''), connected_state,
      \<lparr>history = [Meth 1 Exit],
       logged = [(ERROR, [Lit txt_logout_failed, Arg_str ''timeout''])]\<rparr>)
   \<and> trader connected_state = Some 1 \<and> trader_connected connected_state"
  by (simp add: logout_def invoke_def broker_bad_def connected_state_def fresh_def log_def)

text \<open>
  C2, amended. With a trader object stored, logout calls its exit once. If the call
  returns, the handle is cleared and the connected flag is off, and the answer is the
  success envelope. If it raises, the failure is logged, the answer is HTTP 500 with the
  message after the fixed label, and the globals are those before the call.
\<close>

theorem logout_with_handle:
  assumes "trader g = Some h"
  shows "(meth c (history w) h Exit = Inr v \<longrightarrow>
            logout c now g w =
              (Ok \<lparr>success = True, message = txt_logged_out, data = PNone, timestamp = now\<rparr>,
               g\<lparr>trader_connected := False, trader := None\<rparr>,
               w\<lparr>history := history w @ [Meth h Exit]\<rparr>))
       \<and> (meth c (history w) h Exit = Inl e \<longrightarrow>
            logout c now g w =
              (HTTPException 500 (txt_logout_failed @ e), g,
               log ERROR [Lit txt_logout_failed, Arg_str e]
                 (w\<lparr>history := history w @ [Meth h Exit]\<rparr>)))"
  using assms by (simp add: logout_def invoke_def create_response_def)

theorem logout_with_handle_witness:
  "logout broker_good ''2024-01-01T09:30:00'' connected_state fresh =
     (Ok \<lparr>success = True, message = txt_logged_out, data = PNone,
          timestamp = ''2024-01-01T09:30:00''\<rparr>,
      \<lparr>trader = None, broker_type = ''yh'', trader_connected = False\<rparr>,
      \<lparr>history = [Meth 1 Exit], logged = []\<rparr>)
   \<and> fst (snd (logout broker_bad ''2024-01-01T09:30:00'' connected_state fresh)) = connected_state"
proof -
  have a: "trader connected_state = Some 1"
    by (simp add: connected_state_def)
  have good: "meth broker_good (history fresh) 1 Exit = Inr PNone"
    by (simp add: broker_good_def)
  have bad: "meth broker_bad (history fresh) 1 Exit = Inl ''timeout''"
    by (simp add: broker_bad_def)
  show ?thesis
    using logout_with_handle [OF a, where c = broker_good and w = fresh and v = PNone]
      logout_with_handle [OF a, where c = broker_bad and w = fresh and e = "''timeout''"]
      good bad
    by (simp add: connected_state_def fresh_def)
qed

subsection \<open>The envelope\<close>

lemma guarded_envelope:
  assumes "fst (guarded g w body) = Ok e"
    and "\<And>h. fst (body h) = Ok e \<Longrightarrow> P"
  shows P
  using assms by (auto simp: guarded_def unavailable_def split: option.splits if_splits)

lemma handler_envelopes:
  "fst (health_check now g w) = Ok e \<Longrightarrow> timestamp e = now \<and> success e"
  "fst (login ev c now g w rl) = Ok e \<Longrightarrow> timestamp e = now \<and> success e"
  "fst (logout c now g w) = Ok e \<Longrightarrow> timestamp e = now \<and> (success e \<or> data e = PNone)"
  "fst (buy c now g w rb) = Ok e \<Longrightarrow> timestamp e = now \<and> success e"
  "fst (sell c now g w rs) = Ok e \<Longrightarrow> timestamp e = now \<and> success e"
  "fst (cancel c now g w rc) = Ok e \<Longrightarrow> timestamp e = now \<and> success e"
  "fst (get_portfolio c now g w) = Ok e \<Longrightarrow> timestamp e = now \<and> success e"
  "fst (get_balance c now g w) = Ok e \<Longrightarrow> timestamp e = now \<and> success e"
  "fst (get_orders c now g w) = Ok e \<Longrightarrow> timestamp e = now \<and> success e"
  "fst (get_today_trades c now g w) = Ok e \<Longrightarrow> timestamp e = now \<and> success e"
  subgoal by (auto simp: health_check_def create_response_def)
  subgoal by (auto simp: login_def login_failed_def create_response_def Let_def
        split: prod.splits sum.splits)
  subgoal by (auto simp: logout_def create_response_def split: option.splits prod.splits sum.splits)
  subgoal unfolding buy_def
    by (erule guarded_envelope) (auto simp: create_response_def split: prod.splits sum.splits)
  subgoal unfolding sell_def
    by (erule guarded_envelope) (auto simp: create_response_def split: prod.splits sum.splits)
  subgoal unfolding cancel_def
    by (erule guarded_envelope) (auto simp: create_response_def split: prod.splits sum.splits)
  subgoal unfolding get_portfolio_def
    by (erule guarded_envelope)
      (auto simp: create_response_def split: prod.splits sum.splits if_splits)
  subgoal unfolding get_balance_def
    by (erule guarded_envelope) (auto simp: create_response_def split: prod.splits sum.splits)
  subgoal unfolding get_orders_def
    by (erule guarded_envelope)
      (auto simp: create_response_def split: prod.splits sum.splits if_splits)
  subgoal unfolding get_today_trades_def
    by (erule guarded_envelope)
      (auto simp: create_response_def split: prod.splits sum.splits if_splits)
  done

text \<open>
  C5, as the claim states it, fails: the formatter sets the data it is given, which is
  \<^verbatim>\<open>None\<close> unless the caller passes some, whatever the success flag is. The envelope
  of a successful logout has success true and no data.
\<close>

theorem envelope_shape_counterexample:
  "fst (logout broker_good ''2024-01-01T09:30:00'' connected_state fresh) =
     Ok (create_response ''2024-01-01T09:30:00'' True txt_logged_out PNone)
   \<and> success (create_response ''2024-01-01T09:30:00'' True txt_logged_out PNone) = True
   \<and> data (create_response ''2024-01-01T09:30:00'' True txt_logged_out PNone) = PNone"
  by (simp add: logout_def invoke_def broker_good_def connected_state_def create_response_def)

text \<open>
  C5, amended. The formatter copies the success flag, the message and the data it is given
  and stamps the current time. In every envelope that a route returns the time stamp is
  the current time, and data is present only with success true: success false comes with
  no data, while success true comes with or without data.
\<close>

theorem envelope_contract:
  "create_response now s m d = \<lparr>success = s, message = m, data = d, timestamp = now\<rparr>
   \<and> (fst (serve ev c now g w rq) = Ok e \<longrightarrow>
        timestamp e = now \<and> (data e \<noteq> PNone \<longrightarrow> success e))"
proof -
  have "timestamp e = now \<and> (success e \<or> data e = PNone)"
    if "fst (serve ev c now g w rq) = Ok e"
    using that by (cases rq) (auto split: sum.splits dest: handler_envelopes)
  then show ?thesis
    by (auto simp: create_response_def)
qed

theorem envelope_contract_witness:
  "fst (serve no_env broker_good ''2024-01-01T09:30:00'' initial fresh GET_health)
     = Ok (create_response ''2024-01-01T09:30:00'' True txt_service_ok
            (PDict [(''connected'', PBool False), (''broker_type'', PStr ''yh'')]))
   \<and> timestamp (create_response ''2024-01-01T09:30:00'' True txt_service_ok
        (PDict [(''connected'', PBool False), (''broker_type'', PStr ''yh'')]))
     = ''2024-01-01T09:30:00''
   \<and> data (create_response ''2024-01-01T09:30:00'' True txt_service_ok
        (PDict [(''connected'', PBool False), (''broker_type'', PStr ''yh'')])) \<noteq> PNone
   \<and> success (create_response ''2024-01-01T09:30:00'' True txt_service_ok
        (PDict [(''connected'', PBool False), (''broker_type'', PStr ''yh'')]))"
proof -
  let ?e = "create_response ''2024-01-01T09:30:00'' True txt_service_ok
              (PDict [(''connected'', PBool False), (''broker_type'', PStr ''yh'')])"
  have a: "fst (serve no_env broker_good ''2024-01-01T09:30:00'' initial fresh GET_health) = Ok ?e"
    by (simp add: health_check_def initial_def)
  have b: "data ?e \<noteq> PNone"
    by (simp add: create_response_def)
  show ?thesis
    using envelope_contract [where ev = no_env and c = broker_good
        and now = "''2024-01-01T09:30:00''" and g = initial and w = fresh and rq = GET_health
        and e = ?e] a b
    by simp
qed

subsection \<open>Validation of request bodies\<close>

text \<open>
  C7. A buy or sell body whose price or amount is given and is zero or negative does not
  validate: the answer is the validation error (HTTP 422) listing the offending field, and
  the handler is not entered, so the globals and the world are unchanged and the broker
  library is never called.
\<close>

theorem nonpositive_order_rejected:
  assumes "(\<exists>p. body_price b = Some p \<and> p \<le> 0) \<or> (\<exists>a. body_amount b = Some a \<and> a \<le> 0)"
  shows "serve ev c now g w (POST_buy b) = (RequestValidationError (order_errors b), g, w)
       \<and> serve ev c now g w (POST_sell b) = (RequestValidationError (order_errors b), g, w)
       \<and> status_code (RequestValidationError (order_errors b)) = 422
       \<and> (Not_greater_than_0 ''price'' \<in> set (order_errors b)
            \<or> Not_greater_than_0 ''amount'' \<in> set (order_errors b))"
  using assms
  by (auto simp: validate_BuyRequest_def validate_SellRequest_def order_errors_def gt0_def
      split: option.splits)

theorem nonpositive_order_rejected_witness:
  "serve no_env broker_good ''2024-01-01T09:30:00'' connected_state fresh (POST_buy negative_price)
     = (RequestValidationError [Not_greater_than_0 ''price''], connected_state, fresh)
   \<and> serve no_env broker_good ''2024-01-01T09:30:00'' connected_state fresh (POST_sell negative_price)
     = (RequestValidationError [Not_greater_than_0 ''price''], connected_state, fresh)"
proof -
  have a: "(\<exists>p. body_price negative_price = Some p \<and> p \<le> 0)
         \<or> (\<exists>a. body_amount negative_price = Some a \<and> a \<le> 0)"
    by (simp add: negative_price_def)
  have b: "order_errors negative_price = [Not_greater_than_0 ''price'']"
    by (simp add: order_errors_def negative_price_def required_def gt0_def)
  show ?thesis
    using nonpositive_order_rejected [OF a, of no_env broker_good _ connected_state fresh] b
    by simp
qed

text \<open>
  C8, as the claim states it, fails: the string fields are declared required and nothing
  more, so an empty symbol and an empty order id validate. In a connected session they
  reach the broker library as they are.
\<close>

theorem empty_string_counterexample:
  "status_code (fst (serve no_env broker_good ''2024-01-01T09:30:00'' connected_state fresh
      (POST_buy empty_symbol))) = 200
   \<and> history (snd (snd (serve no_env broker_good ''2024-01-01T09:30:00'' connected_state fresh
      (POST_buy empty_symbol)))) = [Meth 1 (Buy [] 1 1)]
   \<and> status_code (fst (serve no_env broker_good ''2024-01-01T09:30:00'' connected_state fresh
      (POST_cancel empty_order_id))) = 200
   \<and> history (snd (snd (serve no_env broker_good ''2024-01-01T09:30:00'' connected_state fresh
      (POST_cancel empty_order_id)))) = [Meth 1 (Cancel_entrust [])]"
  by (simp add: validate_BuyRequest_def validate_CancelRequest_def empty_symbol_def
      empty_order_id_def buy_def cancel_def guarded_def invoke_def broker_good_def
      connected_state_def fresh_def log_def)

text \<open>
  C8, amended. Validation requires the symbol of an order and the order id of a cancel
  request to be present, and accepts any string for them, the empty one included. A body
  without the field ends in the validation error with globals and world unchanged; a body
  with the field (and, for an order, a positive price and amount) is handed to the handler
  with the string as it is.
\<close>

theorem validation_of_strings:
  "(body_symbol b = None \<longrightarrow>
      serve ev c now g w (POST_buy b) = (RequestValidationError (order_errors b), g, w)
    \<and> serve ev c now g w (POST_sell b) = (RequestValidationError (order_errors b), g, w)
    \<and> Missing ''symbol'' \<in> set (order_errors b))
   \<and> (body_order_id cb = None \<longrightarrow>
      serve ev c now g w (POST_cancel cb) = (RequestValidationError [Missing ''order_id''], g, w))
   \<and> (body_symbol b = Some s \<and> body_price b = Some p \<and> body_amount b = Some a
        \<and> 0 < p \<and> 0 < a \<longrightarrow>
      serve ev c now g w (POST_buy b)
        = buy c now g w \<lparr>buy_symbol = s, buy_price = p, buy_amount = a\<rparr>
    \<and> serve ev c now g w (POST_sell b)
        = sell c now g w \<lparr>sell_symbol = s, sell_price = p, sell_amount = a\<rparr>)
   \<and> (body_order_id cb = Some i \<longrightarrow>
      serve ev c now g w (POST_cancel cb) = cancel c now g w \<lparr>order_id = i\<rparr>)"
  by (simp add: validate_BuyRequest_def validate_SellRequest_def validate_CancelRequest_def
      order_errors_def required_def)

theorem validation_of_strings_witness:
  "serve no_env broker_good ''2024-01-01T09:30:00'' connected_state fresh (POST_buy empty_symbol)
     = buy broker_good ''2024-01-01T09:30:00'' connected_state fresh
         \<lparr>buy_symbol = [], buy_price = 1, buy_amount = 1\<rparr>
   \<and> serve no_env broker_good ''2024-01-01T09:30:00'' connected_state fresh (POST_cancel empty_order_id)
     = cancel broker_good ''2024-01-01T09:30:00'' connected_state fresh \<lparr>order_id = []\<rparr>
   \<and> serve no_env broker_good ''2024-01-01T09:30:00'' connected_state fresh
        (POST_cancel \<lparr>body_order_id = None\<rparr>)
     = (RequestValidationError [Missing ''order_id''], connected_state, fresh)
   \<and> serve no_env broker_good ''2024-01-01T09:30:00'' connected_state fresh
        (POST_buy (empty_symbol\<lparr>body_symbol := None\<rparr>))
     = (RequestValidationError [Missing ''symbol''], connected_state, fresh)"
proof -
  have e: "order_errors (empty_symbol\<lparr>body_symbol := None\<rparr>) = [Missing ''symbol'']"
    by (simp add: order_errors_def empty_symbol_def required_def gt0_def)
  show ?thesis
    using validation_of_strings [where b = empty_symbol and cb = empty_order_id
        and s = "[]" and p = 1 and a = 1 and i = "[]" and ev = no_env and c = broker_good
        and now = "''2024-01-01T09:30:00''" and g = connected_state and w = fresh]
      validation_of_strings [where b = "empty_symbol\<lparr>body_symbol := None\<rparr>"
        and cb = "\<lparr>body_order_id = None\<rparr>" and ev = no_env and c = broker_good
        and now = "''2024-01-01T09:30:00''" and g = connected_state and w = fresh] e
    by (simp add: empty_symbol_def empty_order_id_def)
qed

subsection \<open>After a failed login\<close>

text \<open>
  C9, as the claim states it, fails for a login that fails in \<^verbatim>\<open>easytrader.use\<close>: the
  assignment to \<^verbatim>\<open>trader\<close> is not reached, so the stored handle is the one from
  before. From the start state there is none, and the following logout takes the
  not-logged-in path without calling the library.
\<close>

theorem failed_login_logout_counterexample:
  "fst failed_use = HTTPException 500 (txt_login_failed @ ''unsupported broker'')
   \<and> trader (fst (snd failed_use)) = None
   \<and> history (snd (snd failed_use)) = [Use ''zz'']
   \<and> logout broker_bad ''2024-01-01T09:31:00'' (fst (snd failed_use)) (snd (snd failed_use)) =
       (Ok (create_response ''2024-01-01T09:31:00'' False txt_not_logged_in PNone),
        fst (snd failed_use), snd (snd failed_use))"
  by (simp add: failed_use_def login_def login_failed_def use_broker_def broker_bad_def
      login_as_def initial_def fresh_def log_def logout_def)

text \<open>
  C9, amended. After a failed login whose handle was created (the failure is in prepare or
  in authenticate), the stored handle is the new one, the connected flag is off and the
  last call made to the library is the call on that handle that raised; a following logout
  does not take the not-logged-in path but calls exit on that handle. After a failed login
  whose handle was not created, the stored handle is the one from before.
\<close>

theorem failed_login_then_logout:
  assumes "login ev c now g w r = (HTTPException n d, g1, w1)"
  shows "(use c (history w) (req_broker_type r) = Inr h \<longrightarrow>
            trader g1 = Some h \<and> \<not> trader_connected g1
          \<and> (\<exists>m x. history w1 = butlast (history w1) @ [Meth h m]
                \<and> meth c (butlast (history w1)) h m = Inl x)
          \<and> fst (logout c now' g1 w1) \<noteq> Ok (create_response now' False txt_not_logged_in PNone)
          \<and> history (snd (snd (logout c now' g1 w1))) = history w1 @ [Meth h Exit])
       \<and> (use c (history w) (req_broker_type r) = Inl x \<longrightarrow>
            trader g1 = trader g \<and> \<not> trader_connected g1)"
proof (intro conjI impI)
  assume u: "use c (history w) (req_broker_type r) = Inr h"
  from login_fails(2) [OF assms u] show t: "trader g1 = Some h" and "\<not> trader_connected g1"
    by simp_all
  from assms u show "\<exists>m x. history w1 = butlast (history w1) @ [Meth h m]
      \<and> meth c (butlast (history w1)) h m = Inl x"
    by (auto simp: login_def use_broker_def invoke_def login_failed_def log_def Let_def
        butlast_append split: sum.splits if_splits)
  from t show "fst (logout c now' g1 w1) \<noteq> Ok (create_response now' False txt_not_logged_in PNone)"
    by (auto simp: logout_def invoke_def create_response_def log_def split: sum.splits)
  from t show "history (snd (snd (logout c now' g1 w1))) = history w1 @ [Meth h Exit]"
    by (auto simp: logout_def invoke_def log_def split: sum.splits)
next
  assume "use c (history w) (req_broker_type r) = Inl x"
  from login_fails(3) [OF assms this] show "trader g1 = trader g" and "\<not> trader_connected g1"
    by simp_all
qed

theorem failed_login_then_logout_witness:
  "trader (fst (snd failed_prepare)) = Some 0
   \<and> \<not> trader_connected (fst (snd failed_prepare))
   \<and> history (snd (snd (logout broker_bad ''2024-01-01T09:31:00''
        (fst (snd failed_prepare)) (snd (snd failed_prepare))))) =
      [Use ''ht'', Meth 0 (Prepare []), Meth 0 Exit]"
proof -
  have a: "login no_env broker_bad ''2024-01-01T09:30:00'' initial fresh (login_as ''ht'') =
             (HTTPException 500 (txt_login_failed @ ''timeout''),
              fst (snd failed_prepare), snd (snd failed_prepare))"
    by (simp add: failed_prepare_def login_def login_failed_def use_broker_def invoke_def
        broker_bad_def login_as_def fresh_def no_env_def getenv_def str_or_def log_def Let_def)
  have b: "use broker_bad (history fresh) (req_broker_type (login_as ''ht'')) = Inr 0"
    by (simp add: broker_bad_def login_as_def fresh_def)
  have c: "history (snd (snd failed_prepare)) = [Use ''ht'', Meth 0 (Prepare [])]"
    by (simp add: failed_prepare_def login_def login_failed_def use_broker_def invoke_def
        broker_bad_def login_as_def fresh_def no_env_def getenv_def str_or_def log_def Let_def)
  show ?thesis
    using failed_login_then_logout [OF a, where h = 0 and now' = "''2024-01-01T09:31:00''"] b c
    by simp
qed

text \<open>
  C10, as the claim states it, fails for a login that fails in \<^verbatim>\<open>easytrader.use\<close>:
  the assignment to \<^verbatim>\<open>broker_type\<close> comes after that call and is not reached. From the
  start state, a failed login for the kind \<^verbatim>\<open>zz\<close> leaves health reporting the kind
  \<^verbatim>\<open>yh\<close>.
\<close>

theorem failed_login_health_counterexample:
  "fst failed_use = HTTPException 500 (txt_login_failed @ ''unsupported broker'')
   \<and> req_broker_type (login_as ''zz'') = ''zz''
   \<and> fst (health_check ''2024-01-01T09:31:00'' (fst (snd failed_use)) (snd (snd failed_use))) =
       Ok (create_response ''2024-01-01T09:31:00'' True txt_service_ok
            (PDict [(''connected'', PBool False), (''broker_type'', PStr ''yh'')]))"
  by (simp add: failed_use_def login_def login_failed_def use_broker_def broker_bad_def
      login_as_def initial_def fresh_def log_def health_check_def)

text \<open>
  C10, amended. The broker kind is assigned right after the handle is created, before
  prepare and authenticate are called, and the failure branch assigns the connected flag
  only. So after a failed login whose handle was created, health reports the requested
  kind with connected false; after a failed login whose handle was not created, health
  reports the kind from before with connected false. Health reads no other global.
\<close>

theorem failed_login_health:
  assumes "login ev c now g w r = (HTTPException n d, g1, w1)"
  shows "(use c (history w) (req_broker_type r) = Inr h \<longrightarrow>
            health_check now' g1 w1 =
              (Ok (create_response now' True txt_service_ok
                     (PDict [(''connected'', PBool False),
                             (''broker_type'', PStr (req_broker_type r))])), g1, w1))
       \<and> (use c (history w) (req_broker_type r) = Inl x \<longrightarrow>
            health_check now' g1 w1 =
              (Ok (create_response now' True txt_service_ok
                     (PDict [(''connected'', PBool False),
                             (''broker_type'', PStr (broker_type g))])), g1, w1))"
proof (intro conjI impI)
  assume "use c (history w) (req_broker_type r) = Inr h"
  from login_fails(2) [OF assms this]
  show "health_check now' g1 w1 =
      (Ok (create_response now' True txt_service_ok
             (PDict [(''connected'', PBool False),
                     (''broker_type'', PStr (req_broker_type r))])), g1, w1)"
    by (simp add: health_check_def)
next
  assume "use c (history w) (req_broker_type r) = Inl x"
  from login_fails(3) [OF assms this]
  show "health_check now' g1 w1 =
      (Ok (create_response now' True txt_service_ok
             (PDict [(''connected'', PBool False),
                     (''broker_type'', PStr (broker_type g))])), g1, w1)"
    by (simp add: health_check_def)
qed

theorem failed_login_health_witness:
  "fst (health_check ''2024-01-01T09:31:00'' (fst (snd failed_prepare)) (snd (snd failed_prepare))) =
     Ok (create_response ''2024-01-01T09:31:00'' True txt_service_ok
          (PDict [(''connected'', PBool False), (''broker_type'', PStr ''ht'')]))
   \<and> fst (health_check ''2024-01-01T09:31:00'' (fst (snd failed_use)) (snd (snd failed_use))) =
     Ok (create_response ''2024-01-01T09:31:00'' True txt_service_ok
          (PDict [(''connected'', PBool False), (''broker_type'', PStr ''yh'')]))"
proof -
  have a: "login no_env broker_bad ''2024-01-01T09:30:00'' initial fresh (login_as ''ht'') =
             (HTTPException 500 (txt_login_failed @ ''timeout''),
              fst (snd failed_prepare), snd (snd failed_prepare))"
    by (simp add: failed_prepare_def login_def login_failed_def use_broker_def invoke_def
        broker_bad_def login_as_def fresh_def no_env_def getenv_def str_or_def log_def Let_def)
  have b: "use broker_bad (history fresh) (req_broker_type (login_as ''ht'')) = Inr 0"
    by (simp add: broker_bad_def login_as_def fresh_def)
  have a': "login no_env broker_bad ''2024-01-01T09:30:00'' initial fresh (login_as ''zz'') =
             (HTTPException 500 (txt_login_failed @ ''unsupported broker''),
              fst (snd failed_use), snd (snd failed_use))"
    by (simp add: failed_use_def login_def login_failed_def use_broker_def
        broker_bad_def login_as_def fresh_def log_def)
  have b': "use broker_bad (history fresh) (req_broker_type (login_as ''zz'')) =
             Inl ''unsupported broker''"
    by (simp add: broker_bad_def login_as_def)
  show ?thesis
    using failed_login_health [OF a, where h = 0 and now' = "''2024-01-01T09:31:00''"] b
      failed_login_health [OF a', where x = "''unsupported broker''"
        and now' = "''2024-01-01T09:31:00''"] b'
    by (simp add: login_as_def initial_def)
qed

end
